theory Spec2Isabelle
  imports Main "HOL-Library.Word"
begin

section \<open>A three-endpoint HTTP server on libevent\<close>

text \<open>
  The program is one C file, \<^verbatim>\<open>load_bearer.c\<close>. Its own functions are
  \<^verbatim>\<open>null_response_cb\<close>, \<^verbatim>\<open>http_response_new\<close>, \<^verbatim>\<open>http_response_free\<close>,
  \<^verbatim>\<open>send_response_cb\<close>, \<^verbatim>\<open>requested_delay\<close>, \<^verbatim>\<open>delayed_response_cb\<close>,
  \<^verbatim>\<open>blocking_response_cb\<close> and \<^verbatim>\<open>main\<close>. Everything else it calls belongs to
  libc or libevent; those calls are modelled by what they do to an explicit world
  (live requests, live buffers, allocated holders, armed timers, replies delivered,
  sleeps performed), with every misuse of a pointer a fault of the model.
\<close>

subsection \<open>C data\<close>

text \<open>
  \<^verbatim>\<open>int\<close> is 32 bits wide; \<^verbatim>\<open>time_t\<close> and \<^verbatim>\<open>suseconds_t\<close> are \<^verbatim>\<open>long\<close>, 64 bits
  (LP64). A pointer is \<open>nat option\<close>: \<open>None\<close> is \<^verbatim>\<open>NULL\<close>. A C string is a
  \<open>string\<close> holding the characters before the terminating NUL.
\<close>

type_synonym c_int = "32 word"
type_synonym c_long = "64 word"
type_synonym ptr = "nat option"

record timeval =
  tv_sec :: c_long
  tv_usec :: c_long

text \<open>\<^verbatim>\<open>struct http_response\<close>: the pending response, a request and its body.\<close>

record http_response =
  req :: ptr
  buf :: ptr

text \<open>
  Of \<^verbatim>\<open>struct evhttp_request\<close> the program reads the URI only, and only through
  \<^verbatim>\<open>evhttp_parse_query(evhttp_request_uri(req), &params)\<close>. The field \<open>query\<close> is
  the queue that call fills: the key/value pairs of the query string in the order
  \<^verbatim>\<open>TAILQ_FOREACH\<close> visits them, values URI-decoded. \<open>meth\<close> is the request method.
\<close>

record evhttp_request =
  meth :: string
  query :: "(string \<times> string) list"

text \<open>A reply as the client sees it: which request, status code, reason, body.\<close>

record reply =
  reply_to :: nat
  reply_code :: int
  reply_reason :: string
  reply_body :: string

datatype fault = AssertionFailed | NullPointer | Dangling

text \<open>
  What the environment answers during one callback: the pointer \<^verbatim>\<open>evbuffer_new\<close>
  returns, the pointer \<^verbatim>\<open>malloc\<close> returns, the return codes of \<^verbatim>\<open>event_once\<close> and
  \<^verbatim>\<open>usleep\<close>. Each is called at most once per callback.
\<close>

record env =
  evbuffer_new_ret :: ptr
  malloc_ret :: ptr
  event_once_ret :: c_int
  usleep_ret :: c_int

record world =
  requests :: "nat \<rightharpoonup> evhttp_request"
  buffers :: "nat \<rightharpoonup> string"
  holders :: "nat \<rightharpoonup> http_response"
  timers :: "(ptr \<times> timeval) list"
  replies :: "reply list"
  sleeps :: "c_int list"

type_synonym result = "(fault \<times> world) + world"

subsection \<open>libc: character classes, strncmp, atoi and the decimal conversion of printf\<close>

definition isspace :: "char \<Rightarrow> bool" where
  "isspace c = ((of_char c :: nat) = 32 \<or> (9 \<le> (of_char c :: nat) \<and> (of_char c :: nat) \<le> 13))"

definition isdigit :: "char \<Rightarrow> bool" where
  "isdigit c = (48 \<le> (of_char c :: nat) \<and> (of_char c :: nat) \<le> 57)"

definition digit_val :: "char \<Rightarrow> int" where
  "digit_val c = int (of_char c) - 48"

text \<open>
  \<^verbatim>\<open>strncmp(s1, s2, n)\<close>: compares at most \<open>n\<close> characters as unsigned chars and
  stops at the first difference or at the end of both strings.
\<close>

fun strncmp :: "string \<Rightarrow> string \<Rightarrow> nat \<Rightarrow> int" where
  "strncmp s1 s2 0 = 0"
| "strncmp [] [] (Suc n) = 0"
| "strncmp [] (b # bs) (Suc n) = - int (of_char b)"
| "strncmp (a # as) [] (Suc n) = int (of_char a)"
| "strncmp (a # as) (b # bs) (Suc n) =
     (if a = b then strncmp as bs n else int (of_char a) - int (of_char b))"

text \<open>The run of decimal digits at the head of a string, accumulated from \<open>a\<close>.\<close>

fun acc_digits :: "int \<Rightarrow> string \<Rightarrow> int" where
  "acc_digits a [] = a"
| "acc_digits a (c # cs) = (if isdigit c then acc_digits (10 * a + digit_val c) cs else a)"

definition LONG_MAX :: int where
  "LONG_MAX = 2 ^ 63 - 1"

definition LONG_MIN :: int where
  "LONG_MIN = - (2 ^ 63)"

text \<open>
  \<^verbatim>\<open>strtol(s, NULL, 10)\<close>: skips white space, reads an optional sign and the digits
  that follow, and saturates at the ends of \<^verbatim>\<open>long\<close>. With no digit the result is 0.
\<close>

definition strtol10 :: "string \<Rightarrow> int" where
  "strtol10 s =
     (case dropWhile isspace s of
        [] \<Rightarrow> 0
      | c # cs \<Rightarrow>
          if c = CHR ''-'' then max LONG_MIN (- acc_digits 0 cs)
          else if c = CHR ''+'' then min LONG_MAX (acc_digits 0 cs)
          else min LONG_MAX (acc_digits 0 (c # cs)))"

text \<open>
  \<^verbatim>\<open>atoi(s)\<close> is \<^verbatim>\<open>(int) strtol(s, NULL, 10)\<close>, as glibc and the BSDs define it; the
  conversion to \<^verbatim>\<open>int\<close> keeps the low 32 bits. (ISO C leaves the result undefined
  when the number does not fit an \<^verbatim>\<open>int\<close>.)
\<close>

definition atoi :: "string \<Rightarrow> c_int" where
  "atoi s = word_of_int (strtol10 s)"

definition digit_char :: "nat \<Rightarrow> char" where
  "digit_char k = ''0123456789'' ! k"

function dec_digits :: "nat \<Rightarrow> string" where
  "dec_digits n =
     (if n < 10 then [digit_char n]
      else dec_digits (n div 10) @ [digit_char (n mod 10)])"
  by pat_completeness auto
termination
  by (relation "measure id") auto

declare dec_digits.simps [simp del]

text \<open>The conversion \<^verbatim>\<open>%d\<close> of \<^verbatim>\<open>printf\<close> applied to an \<^verbatim>\<open>int\<close>.\<close>

definition printf_d :: "c_int \<Rightarrow> string" where
  "printf_d d =
     (if sint d < 0 then CHR ''-'' # dec_digits (nat (- sint d))
      else dec_digits (nat (sint d)))"

subsection \<open>libevent and the allocator, as effects on the world\<close>

text \<open>\<^verbatim>\<open>evbuffer_new()\<close>: a fresh empty buffer, or \<^verbatim>\<open>NULL\<close>.\<close>

definition evbuffer_new :: "env \<Rightarrow> world \<Rightarrow> ptr \<times> world" where
  "evbuffer_new e w =
     (case evbuffer_new_ret e of
        None \<Rightarrow> (None, w)
      | Some b \<Rightarrow> (Some b, w\<lparr>buffers := (buffers w)(b \<mapsto> [])\<rparr>))"

text \<open>
  \<^verbatim>\<open>evbuffer_add_printf(buf, fmt, ...)\<close>, given the formatted text: appends it.
  libevent reads through \<open>buf\<close> at once, so a null buffer is a null dereference.
\<close>

definition evbuffer_add_printf :: "ptr \<Rightarrow> string \<Rightarrow> world \<Rightarrow> result" where
  "evbuffer_add_printf bf s w =
     (case bf of
        None \<Rightarrow> Inl (NullPointer, w)
      | Some b \<Rightarrow>
          (case buffers w b of
             None \<Rightarrow> Inl (Dangling, w)
           | Some t \<Rightarrow> Inr (w\<lparr>buffers := (buffers w)(b \<mapsto> t @ s)\<rparr>)))"

definition evbuffer_free :: "ptr \<Rightarrow> world \<Rightarrow> result" where
  "evbuffer_free bf w =
     (case bf of
        None \<Rightarrow> Inl (NullPointer, w)
      | Some b \<Rightarrow>
          (case buffers w b of
             None \<Rightarrow> Inl (Dangling, w)
           | Some t \<Rightarrow> Inr (w\<lparr>buffers := (buffers w)(b := None)\<rparr>)))"

text \<open>
  \<^verbatim>\<open>evhttp_send_reply(req, code, reason, databuf)\<close>: moves the content of
  \<open>databuf\<close> into the reply and delivers it. The request then belongs to libevent,
  which frees it (``send\_reply also frees the request'', as the program's comment
  has it): the program must not touch it again.
\<close>

definition evhttp_send_reply :: "ptr \<Rightarrow> int \<Rightarrow> string \<Rightarrow> ptr \<Rightarrow> world \<Rightarrow> result" where
  "evhttp_send_reply rq code reason bf w =
     (case rq of
        None \<Rightarrow> Inl (NullPointer, w)
      | Some r \<Rightarrow>
          (case requests w r of
             None \<Rightarrow> Inl (Dangling, w)
           | Some x \<Rightarrow>
               (case bf of
                  None \<Rightarrow> Inl (NullPointer, w)
                | Some b \<Rightarrow>
                    (case buffers w b of
                       None \<Rightarrow> Inl (Dangling, w)
                     | Some t \<Rightarrow>
                         Inr (w\<lparr>requests := (requests w)(r := None),
                                buffers := (buffers w)(b \<mapsto> []),
                                replies := replies w @
                                  [\<lparr>reply_to = r, reply_code = code,
                                    reply_reason = reason, reply_body = t\<rparr>]\<rparr>)))))"

definition evhttp_request_free :: "ptr \<Rightarrow> world \<Rightarrow> result" where
  "evhttp_request_free rq w =
     (case rq of
        None \<Rightarrow> Inl (NullPointer, w)
      | Some r \<Rightarrow>
          (case requests w r of
             None \<Rightarrow> Inl (Dangling, w)
           | Some x \<Rightarrow> Inr (w\<lparr>requests := (requests w)(r := None)\<rparr>)))"

text \<open>\<^verbatim>\<open>free(ptr)\<close> on a holder.\<close>

definition free :: "ptr \<Rightarrow> world \<Rightarrow> result" where
  "free p w =
     (case p of
        None \<Rightarrow> Inr w
      | Some a \<Rightarrow>
          (case holders w a of
             None \<Rightarrow> Inl (Dangling, w)
           | Some h \<Rightarrow> Inr (w\<lparr>holders := (holders w)(a := None)\<rparr>)))"

definition EV_TIMEOUT :: "16 word" where
  "EV_TIMEOUT = 1"

text \<open>
  \<^verbatim>\<open>event_once(fd, EV_TIMEOUT, send_response_cb, arg, &tv)\<close>: arms a one-shot timer
  carrying \<open>arg\<close> and the timeval as given, unless it fails (nonzero return). The
  only callback the program ever registers is \<^verbatim>\<open>send_response_cb\<close>.
\<close>

definition event_once :: "c_int \<Rightarrow> 16 word \<Rightarrow> ptr \<Rightarrow> timeval \<Rightarrow> env \<Rightarrow> world \<Rightarrow> c_int \<times> world" where
  "event_once fd ev arg tv e w =
     (if event_once_ret e = 0 then (0, w\<lparr>timers := timers w @ [(arg, tv)]\<rparr>)
      else (event_once_ret e, w))"

text \<open>\<^verbatim>\<open>usleep(usec)\<close>: the sleep asked for is recorded, the result is the environment's.\<close>

definition usleep :: "c_int \<Rightarrow> env \<Rightarrow> world \<Rightarrow> c_int \<times> world" where
  "usleep usec e w = (usleep_ret e, w\<lparr>sleeps := sleeps w @ [usec]\<rparr>)"

subsection \<open>The program\<close>

definition null_response_cb :: "env \<Rightarrow> nat \<Rightarrow> world \<Rightarrow> result" where
  "null_response_cb e rq w =
     (case evbuffer_new e w of
        (bf, w1) \<Rightarrow>
          (case evbuffer_add_printf bf ''OK'' w1 of
             Inl x \<Rightarrow> Inl x
           | Inr w2 \<Rightarrow>
               (case evhttp_send_reply (Some rq) 200 ''OK'' bf w2 of
                  Inl x \<Rightarrow> Inl x
                | Inr w3 \<Rightarrow> evbuffer_free bf w3)))"

text \<open>\<^verbatim>\<open>malloc\<close>, \<^verbatim>\<open>assert(resp)\<close>, then both fields are written.\<close>

definition http_response_new :: "ptr \<Rightarrow> ptr \<Rightarrow> env \<Rightarrow> world \<Rightarrow> (fault \<times> world) + (nat \<times> world)" where
  "http_response_new rq bf e w =
     (case malloc_ret e of
        None \<Rightarrow> Inl (AssertionFailed, w)
      | Some p \<Rightarrow> Inr (p, w\<lparr>holders := (holders w)(p \<mapsto> \<lparr>req = rq, buf = bf\<rparr>)\<rparr>))"

definition http_response_free :: "ptr \<Rightarrow> world \<Rightarrow> result" where
  "http_response_free p w =
     (case p of
        None \<Rightarrow> Inl (NullPointer, w)
      | Some a \<Rightarrow>
          (case holders w a of
             None \<Rightarrow> Inl (Dangling, w)
           | Some h \<Rightarrow>
               (case (if req h \<noteq> None then evhttp_request_free (req h) w else Inr w) of
                  Inl x \<Rightarrow> Inl x
                | Inr w1 \<Rightarrow>
                    (case (if buf h \<noteq> None then evbuffer_free (buf h) w1 else Inr w1) of
                       Inl x \<Rightarrow> Inl x
                     | Inr w2 \<Rightarrow> free p w2))))"

definition send_response_cb :: "c_int \<Rightarrow> 16 word \<Rightarrow> ptr \<Rightarrow> world \<Rightarrow> result" where
  "send_response_cb fd type args w =
     (case args of
        None \<Rightarrow> Inl (NullPointer, w)
      | Some a \<Rightarrow>
          (case holders w a of
             None \<Rightarrow> Inl (Dangling, w)
           | Some resp \<Rightarrow>
               (case evhttp_send_reply (req resp) 200 ''OK'' (buf resp) w of
                  Inl x \<Rightarrow> Inl x
                | Inr w1 \<Rightarrow>
                    http_response_free args
                      (w1\<lparr>holders := (holders w1)(a \<mapsto> resp\<lparr>req := None\<rparr>)\<rparr>))))"

text \<open>The loop of \<^verbatim>\<open>requested_delay\<close> over the parsed parameters, \<open>wait\<close> its variable.\<close>

fun requested_delay_loop :: "c_int \<Rightarrow> (string \<times> string) list \<Rightarrow> c_int" where
  "requested_delay_loop wait [] = wait"
| "requested_delay_loop wait ((key, val) # params) =
     requested_delay_loop (if strncmp key ''delay'' 5 = 0 then atoi val else wait) params"

definition requested_delay :: "evhttp_request \<Rightarrow> c_int" where
  "requested_delay r = requested_delay_loop 0 (query r)"

definition delayed_response_cb :: "env \<Rightarrow> nat \<Rightarrow> world \<Rightarrow> result" where
  "delayed_response_cb e rq w =
     (case requests w rq of
        None \<Rightarrow> Inl (Dangling, w)
      | Some r \<Rightarrow>
          (let wait = requested_delay r;
               delay = \<lparr>tv_sec = 0, tv_usec = scast (1000 * wait)\<rparr>
           in case evbuffer_new e w of
                (bf, w1) \<Rightarrow>
                  (case evbuffer_add_printf bf (''Waited '' @ printf_d wait @ '' ms'') w1 of
                     Inl x \<Rightarrow> Inl x
                   | Inr w2 \<Rightarrow>
                       (case http_response_new (Some rq) bf e w2 of
                          Inl x \<Rightarrow> Inl x
                        | Inr (resp, w3) \<Rightarrow>
                            Inr (snd (event_once (- 1) EV_TIMEOUT (Some resp) delay e w3))))))"

text \<open>
  \<^verbatim>\<open>assert(usleep(wait*1000)==0)\<close> is modelled with assertions compiled in, as the
  build line of the file's header gives it (no \<^verbatim>\<open>NDEBUG\<close>).
\<close>

definition blocking_response_cb :: "env \<Rightarrow> nat \<Rightarrow> world \<Rightarrow> result" where
  "blocking_response_cb e rq w =
     (case requests w rq of
        None \<Rightarrow> Inl (Dangling, w)
      | Some r \<Rightarrow>
          (let wait = requested_delay r
           in case evbuffer_new e w of
                (bf, w1) \<Rightarrow>
                  (case evbuffer_add_printf bf (''Waited '' @ printf_d wait @ '' ms'') w1 of
                     Inl x \<Rightarrow> Inl x
                   | Inr w2 \<Rightarrow>
                       (case http_response_new (Some rq) bf e w2 of
                          Inl x \<Rightarrow> Inl x
                        | Inr (resp, w3) \<Rightarrow>
                            (case usleep (wait * 1000) e w3 of
                               (rc, w4) \<Rightarrow>
                                 if rc = 0 then send_response_cb (- 1) EV_TIMEOUT (Some resp) w4
                                 else Inl (AssertionFailed, w4))))))"

text \<open>
  The reactor runs the \<open>i\<close>-th armed timer: it is one-shot, so it is removed, and
  its callback \<^verbatim>\<open>send_response_cb(-1, EV_TIMEOUT, arg)\<close> is invoked.
\<close>

definition timeout_fires :: "nat \<Rightarrow> world \<Rightarrow> result" where
  "timeout_fires i w =
     (if i < length (timers w)
      then send_response_cb (- 1) EV_TIMEOUT (fst (timers w ! i))
             (w\<lparr>timers := take i (timers w) @ drop (Suc i) (timers w)\<rparr>)
      else Inr w)"

text \<open>The microseconds a timeval denotes.\<close>

definition timeval_usecs :: "timeval \<Rightarrow> int" where
  "timeval_usecs tv = 1000000 * sint (tv_sec tv) + sint (tv_usec tv)"

text \<open>The world a callback leaves behind, whether it returned or the process died.\<close>

definition world_of :: "result \<Rightarrow> world" where
  "world_of x = (case x of Inl (f, w) \<Rightarrow> w | Inr w \<Rightarrow> w)"

text \<open>\<^verbatim>\<open>main\<close>: the callbacks registered with \<^verbatim>\<open>evhttp_set_cb\<close>, by path.\<close>

definition registered_cb :: "string \<Rightarrow> (env \<Rightarrow> nat \<Rightarrow> world \<Rightarrow> result) option" where
  "registered_cb path =
     (if path = ''/'' then Some null_response_cb
      else if path = ''/delay'' then Some delayed_response_cb
      else if path = ''/block'' then Some blocking_response_cb
      else None)"

subsection \<open>The specification's vocabulary\<close>

text \<open>
  From the specification's words, not from the code: a value's ``valid base-10 integer
  prefix'' is, after leading white space, an optional sign and at least one decimal
  digit; its value is the number those digits write. \<open>None\<close> when there is no
  such prefix.
\<close>

definition spec_int_prefix :: "string \<Rightarrow> int option" where
  "spec_int_prefix s =
     (let t = dropWhile isspace s;
          neg = (t \<noteq> [] \<and> hd t = CHR ''-'');
          u = (if t \<noteq> [] \<and> (hd t = CHR ''-'' \<or> hd t = CHR ''+'') then tl t else t);
          ds = takeWhile isdigit u
      in if ds = [] then None
         else Some ((if neg then - 1 else 1) * foldl (\<lambda>a c. 10 * a + digit_val c) 0 ds))"

text \<open>A key that merely begins with the five characters \<^verbatim>\<open>delay\<close>.\<close>

definition begins_with_delay :: "string \<Rightarrow> bool" where
  "begins_with_delay key = (take 5 key = ''delay'')"

subsection \<open>Concrete inputs\<close>

text \<open>
  One in-flight \<^verbatim>\<open>GET\<close> request, handle 1, with the given query parameters; nothing
  else allocated, armed or sent. An environment in which every call succeeds.
\<close>

definition one_request :: "(string \<times> string) list \<Rightarrow> world" where
  "one_request q =
     \<lparr>requests = [1 \<mapsto> \<lparr>meth = ''GET'', query = q\<rparr>], buffers = Map.empty,
      holders = Map.empty, timers = [], replies = [], sleeps = []\<rparr>"

definition all_succeed :: env where
  "all_succeed =
     \<lparr>evbuffer_new_ret = Some 10, malloc_ret = Some 20, event_once_ret = 0, usleep_ret = 0\<rparr>"

section \<open>Facts about the library models\<close>

lemma of_char_nonzero: "b \<noteq> CHR 0x00 \<Longrightarrow> (of_char b :: nat) \<noteq> 0"
  by (cases b) auto

lemma strncmp_zero_iff:
  "n \<le> length t \<Longrightarrow> \<forall>c \<in> set (take n t). c \<noteq> CHR 0x00 \<Longrightarrow>
     (strncmp s t n = 0) = (take n s = take n t)"
proof (induction s t n rule: strncmp.induct)
  case (3 b bs n)
  then have "b \<noteq> CHR 0x00" by simp
  then have "(of_char b :: nat) \<noteq> 0" by (rule of_char_nonzero)
  then show ?case by simp
next
  case (5 a as b bs n)
  then show ?case by simp
qed simp_all

lemma strncmp_delay: "(strncmp key ''delay'' 5 = 0) = begins_with_delay key"
  using strncmp_zero_iff [of 5 "''delay''" key] by (simp add: begins_with_delay_def)

lemma requested_delay_loop_append:
  "requested_delay_loop w (xs @ ys) = requested_delay_loop (requested_delay_loop w xs) ys"
  by (induction xs arbitrary: w) auto

lemma requested_delay_loop_skip:
  "\<forall>p \<in> set ys. \<not> begins_with_delay (fst p) \<Longrightarrow> requested_delay_loop w ys = w"
  by (induction ys arbitrary: w) (auto simp: strncmp_delay)

lemma requested_delay_loop_last:
  "begins_with_delay k \<Longrightarrow> \<forall>p \<in> set ys. \<not> begins_with_delay (fst p) \<Longrightarrow>
     requested_delay_loop w (xs @ (k, v) # ys) = atoi v"
  by (simp add: requested_delay_loop_append requested_delay_loop_skip strncmp_delay)

lemma acc_digits_foldl:
  "acc_digits a s = foldl (\<lambda>a c. 10 * a + digit_val c) a (takeWhile isdigit s)"
  by (induction s arbitrary: a) auto

lemma ten_cases:
  "(k::nat) < 10 \<Longrightarrow>
     k = 0 \<or> k = 1 \<or> k = 2 \<or> k = 3 \<or> k = 4 \<or> k = 5 \<or> k = 6 \<or> k = 7 \<or> k = 8 \<or> k = 9"
  by arith

lemma digit_char_props:
  assumes "k < 10"
  shows "isdigit (digit_char k) \<and> digit_val (digit_char k) = int k \<and>
         \<not> isspace (digit_char k) \<and> digit_char k \<noteq> CHR ''-'' \<and>
         digit_char k \<noteq> CHR ''+'' \<and> (digit_char k = CHR ''0'' \<longrightarrow> k = 0)"
  using ten_cases [OF assms]
  by (elim disjE; simp add: isdigit_def digit_val_def digit_char_def isspace_def)

lemma acc_digits_append:
  "\<forall>c \<in> set xs. isdigit c \<Longrightarrow> acc_digits a (xs @ ys) = acc_digits (acc_digits a xs) ys"
  by (induction xs arbitrary: a) auto

lemma dec_digits_nonempty: "dec_digits n \<noteq> []"
  by (subst dec_digits.simps) simp

lemma dec_digits_all: "\<forall>c \<in> set (dec_digits n). isdigit c"
proof (induction n rule: dec_digits.induct)
  case (1 n)
  show ?case
  proof (cases "n < 10")
    case True
    then show ?thesis by (subst dec_digits.simps) (simp add: digit_char_props)
  next
    case False
    then have "n mod 10 < 10" by simp
    with False 1 show ?thesis by (subst dec_digits.simps) (auto simp: digit_char_props)
  qed
qed

lemma acc_digits_dec_digits: "acc_digits 0 (dec_digits n) = int n"
proof (induction n rule: dec_digits.induct)
  case (1 n)
  show ?case
  proof (cases "n < 10")
    case True
    then show ?thesis by (subst dec_digits.simps) (simp add: digit_char_props)
  next
    case False
    have m: "n mod 10 < 10" by simp
    have "acc_digits 0 (dec_digits n) =
            acc_digits (acc_digits 0 (dec_digits (n div 10))) [digit_char (n mod 10)]"
      using False by (subst dec_digits.simps) (simp add: acc_digits_append dec_digits_all)
    also have "\<dots> = 10 * int (n div 10) + int (n mod 10)"
      using False 1 m by (simp add: digit_char_props)
    also have "\<dots> = int n"
      by (simp add: zdiv_int zmod_int)
    finally show ?thesis .
  qed
qed

lemma hd_dec_digits_zero: "hd (dec_digits n) = CHR ''0'' \<Longrightarrow> n = 0"
proof (induction n rule: dec_digits.induct)
  case (1 n)
  show ?case
  proof (cases "n < 10")
    case True
    with 1(2) show ?thesis by (subst (asm) dec_digits.simps) (simp add: digit_char_props)
  next
    case False
    then have "hd (dec_digits n) = hd (dec_digits (n div 10))"
      by (subst dec_digits.simps) (simp add: dec_digits_nonempty)
    with 1 False have "n div 10 = 0" by simp
    with False show ?thesis by simp
  qed
qed

lemma hd_dec_digits_digit: "isdigit (hd (dec_digits n))"
  using dec_digits_all [of n] dec_digits_nonempty [of n] by (cases "dec_digits n") auto

lemma sint_word_of_int_32:
  "- 2147483648 \<le> n \<Longrightarrow> n < 2147483648 \<Longrightarrow> sint (word_of_int n :: 32 word) = n"
  by (simp add: sint_sbintrunc' signed_take_bit_int_eq_self)

lemma digit_val_nonneg: "isdigit c \<Longrightarrow> 0 \<le> digit_val c"
  by (simp add: isdigit_def digit_val_def)
lemma acc_digits_nonneg: "0 \<le> a \<Longrightarrow> 0 \<le> acc_digits a s"
proof (induction s arbitrary: a)
  case Nil
  then show ?case by simp
next
  case (Cons c cs)
  show ?case
  proof (cases "isdigit c")
    case True
    with Cons.prems have "0 \<le> 10 * a + digit_val c" using digit_val_nonneg [of c] by simp
    with True Cons.IH show ?thesis by simp
  next
    case False
    with Cons.prems show ?thesis by simp
  qed
qed

lemma acc_digits_no_digit: "takeWhile isdigit s = [] \<Longrightarrow> acc_digits a s = a"
  by (cases s) (auto split: if_splits)

lemma strtol10_spec_aux:
  "(case t of
      [] \<Rightarrow> 0
    | c # cs \<Rightarrow>
        if c = CHR ''-'' then max LONG_MIN (- acc_digits 0 cs)
        else if c = CHR ''+'' then min LONG_MAX (acc_digits 0 cs)
        else min LONG_MAX (acc_digits 0 (c # cs))) =
   (case (if takeWhile isdigit (if t \<noteq> [] \<and> (hd t = CHR ''-'' \<or> hd t = CHR ''+'') then tl t else t) = []
          then None
          else Some ((if t \<noteq> [] \<and> hd t = CHR ''-'' then - 1 else 1) *
                 foldl (\<lambda>a c. 10 * a + digit_val c) 0
                   (takeWhile isdigit
                      (if t \<noteq> [] \<and> (hd t = CHR ''-'' \<or> hd t = CHR ''+'') then tl t else t)))) of
      None \<Rightarrow> 0
    | Some n \<Rightarrow> max LONG_MIN (min LONG_MAX n))"
proof (cases t)
  case Nil
  then show ?thesis by simp
next
  case (Cons c cs)
  have nn: "0 \<le> acc_digits 0 cs" "0 \<le> acc_digits 0 (c # cs)"
    by (rule acc_digits_nonneg, simp)+
  have lm: "LONG_MIN \<le> 0" "0 \<le> LONG_MAX" by (simp_all add: LONG_MIN_def LONG_MAX_def)
  have f1: "foldl (\<lambda>a c. 10 * a + digit_val c) 0 (takeWhile isdigit cs) = acc_digits 0 cs"
    by (rule acc_digits_foldl [symmetric])
  have f2: "foldl (\<lambda>a c. 10 * a + digit_val c) 0 (takeWhile isdigit (c # cs)) = acc_digits 0 (c # cs)"
    by (rule acc_digits_foldl [symmetric])
  have z1: "takeWhile isdigit cs = [] \<Longrightarrow> acc_digits 0 cs = 0"
    by (rule acc_digits_no_digit)
  have z2: "takeWhile isdigit (c # cs) = [] \<Longrightarrow> acc_digits 0 (c # cs) = 0"
    by (rule acc_digits_no_digit)
  show ?thesis
  proof (cases "c = CHR ''-''")
    case True
    show ?thesis
    proof (cases "takeWhile isdigit cs = []")
      case e: True
      with True Cons z1 lm show ?thesis by simp
    next
      case e: False
      with True Cons nn lm show ?thesis by (simp only: f1 list.simps if_True if_False simp_thms hd_Cons_tl list.sel option.simps; simp)
    qed
  next
    case nm: False
    show ?thesis
    proof (cases "c = CHR ''+''")
      case True
      show ?thesis
      proof (cases "takeWhile isdigit cs = []")
        case e: True
        with True Cons z1 lm show ?thesis by simp
      next
        case e: False
        with True Cons nn lm show ?thesis by (simp only: f1 list.simps if_True if_False simp_thms list.sel option.simps; simp)
      qed
    next
      case False
      show ?thesis
      proof (cases "takeWhile isdigit (c # cs) = []")
        case e: True
        with nm False Cons z2 lm show ?thesis by (simp only: list.simps if_True if_False simp_thms list.sel option.simps; simp)
      next
        case e: False
        with nm False Cons nn lm show ?thesis by (simp only: f2 list.simps if_True if_False simp_thms list.sel option.simps; simp)
      qed
    qed
  qed
qed

lemma strtol10_spec:
  "strtol10 s = (case spec_int_prefix s of None \<Rightarrow> 0 | Some n \<Rightarrow> max LONG_MIN (min LONG_MAX n))"
  unfolding strtol10_def spec_int_prefix_def Let_def
  by (rule strtol10_spec_aux)

lemma atoi_no_prefix: "spec_int_prefix v = None \<Longrightarrow> atoi v = 0"
  by (simp add: atoi_def strtol10_spec)

lemma atoi_prefix_in_range:
  "spec_int_prefix v = Some n \<Longrightarrow> - 2147483648 \<le> n \<Longrightarrow> n < 2147483648 \<Longrightarrow> sint (atoi v) = n"
  by (simp add: atoi_def strtol10_spec sint_word_of_int_32 LONG_MIN_def LONG_MAX_def)

section \<open>Facts about the callbacks\<close>

lemma send_response_cb_ok:
  assumes "holders w a = Some h" "req h = Some rq" "buf h = Some b"
    and "requests w rq = Some r" "buffers w b = Some t"
  shows "send_response_cb fd ty (Some a) w =
     Inr (w\<lparr>requests := (requests w)(rq := None),
            buffers := (buffers w)(b := None),
            holders := (holders w)(a := None),
            replies := replies w @
              [\<lparr>reply_to = rq, reply_code = 200, reply_reason = ''OK'', reply_body = t\<rparr>]\<rparr>)"
  using assms
  by (simp add: send_response_cb_def evhttp_send_reply_def http_response_free_def
      evbuffer_free_def free_def)

lemma delayed_response_cb_ok:
  assumes "requests w rq = Some r" "evbuffer_new_ret e = Some b" "malloc_ret e = Some p"
    and "event_once_ret e = 0"
  shows "delayed_response_cb e rq w =
     Inr (w\<lparr>buffers := (buffers w)(b \<mapsto> ''Waited '' @ printf_d (requested_delay r) @ '' ms''),
            holders := (holders w)(p \<mapsto> \<lparr>req = Some rq, buf = Some b\<rparr>),
            timers := timers w @
              [(Some p, \<lparr>tv_sec = 0, tv_usec = scast (1000 * requested_delay r)\<rparr>)]\<rparr>)"
  using assms
  by (simp add: delayed_response_cb_def evbuffer_new_def evbuffer_add_printf_def
      http_response_new_def event_once_def Let_def)

lemma blocking_response_cb_ok:
  assumes "requests w rq = Some r" "evbuffer_new_ret e = Some b" "malloc_ret e = Some p"
    and "usleep_ret e = 0"
  shows "blocking_response_cb e rq w =
     Inr (w\<lparr>requests := (requests w)(rq := None),
            buffers := (buffers w)(b := None),
            holders := (holders w)(p := None),
            replies := replies w @
              [\<lparr>reply_to = rq, reply_code = 200, reply_reason = ''OK'',
                reply_body = ''Waited '' @ printf_d (requested_delay r) @ '' ms''\<rparr>],
            sleeps := sleeps w @ [requested_delay r * 1000]\<rparr>)"
  using assms
  by (simp add: blocking_response_cb_def evbuffer_new_def evbuffer_add_printf_def
      http_response_new_def usleep_def Let_def send_response_cb_def evhttp_send_reply_def
      http_response_free_def evbuffer_free_def free_def)

lemma null_response_cb_ok:
  assumes "requests w rq = Some r" "evbuffer_new_ret e = Some b"
  shows "null_response_cb e rq w =
     Inr (w\<lparr>requests := (requests w)(rq := None),
            buffers := (buffers w)(b := None),
            replies := replies w @
              [\<lparr>reply_to = rq, reply_code = 200, reply_reason = ''OK'', reply_body = ''OK''\<rparr>]\<rparr>)"
  using assms
  by (simp add: null_response_cb_def evbuffer_new_def evbuffer_add_printf_def
      evhttp_send_reply_def evbuffer_free_def)

lemma timeout_fires_ok:
  assumes "requests w rq = Some r" "evbuffer_new_ret e = Some b" "malloc_ret e = Some p"
    and "event_once_ret e = 0" "delayed_response_cb e rq w = Inr w1"
  shows "timeout_fires (length (timers w)) w1 =
     Inr (w\<lparr>requests := (requests w)(rq := None),
            buffers := (buffers w)(b := None),
            holders := (holders w)(p := None),
            replies := replies w @
              [\<lparr>reply_to = rq, reply_code = 200, reply_reason = ''OK'',
                reply_body = ''Waited '' @ printf_d (requested_delay r) @ '' ms''\<rparr>]\<rparr>)"
proof -
  have w1: "w1 = w\<lparr>buffers := (buffers w)(b \<mapsto> ''Waited '' @ printf_d (requested_delay r) @ '' ms''),
            holders := (holders w)(p \<mapsto> \<lparr>req = Some rq, buf = Some b\<rparr>),
            timers := timers w @
              [(Some p, \<lparr>tv_sec = 0, tv_usec = scast (1000 * requested_delay r)\<rparr>)]\<rparr>"
    using assms delayed_response_cb_ok [of w rq r e b p] by simp
  show ?thesis
    unfolding w1 using assms(1)
    by (simp add: timeout_fires_def send_response_cb_def evhttp_send_reply_def
        http_response_free_def evbuffer_free_def free_def)
qed

subsection \<open>Paths that do not return\<close>

lemma blocking_response_cb_interrupted:
  assumes "requests w rq = Some r" "evbuffer_new_ret e = Some b" "malloc_ret e = Some p"
    and "usleep_ret e \<noteq> 0"
  shows "blocking_response_cb e rq w =
     Inl (AssertionFailed,
          w\<lparr>buffers := (buffers w)(b \<mapsto> ''Waited '' @ printf_d (requested_delay r) @ '' ms''),
            holders := (holders w)(p \<mapsto> \<lparr>req = Some rq, buf = Some b\<rparr>),
            sleeps := sleeps w @ [requested_delay r * 1000]\<rparr>)"
  using assms
  by (simp add: blocking_response_cb_def evbuffer_new_def evbuffer_add_printf_def
      http_response_new_def usleep_def Let_def)

lemma blocking_response_cb_interrupted_any:
  assumes "usleep_ret e \<noteq> 0"
  shows "\<exists>f w'. blocking_response_cb e rq w = Inl (f, w') \<and> replies w' = replies w"
proof (cases "requests w rq")
  case None
  then show ?thesis by (simp add: blocking_response_cb_def)
next
  case (Some r)
  show ?thesis
  proof (cases "evbuffer_new_ret e")
    case None
    with Some show ?thesis
      by (simp add: blocking_response_cb_def evbuffer_new_def evbuffer_add_printf_def Let_def)
  next
    case b: (Some b)
    show ?thesis
    proof (cases "malloc_ret e")
      case None
      with Some b show ?thesis
        by (simp add: blocking_response_cb_def evbuffer_new_def evbuffer_add_printf_def
            http_response_new_def Let_def)
    next
      case p: (Some p)
      show ?thesis
        using blocking_response_cb_interrupted [OF Some b p assms] by simp
    qed
  qed
qed

subsection \<open>At most one reply per callback\<close>

lemma null_response_cb_at_most_once:
  "length (replies (world_of (null_response_cb e rq w))) \<le> Suc (length (replies w))"
  by (simp add: null_response_cb_def evbuffer_new_def evbuffer_add_printf_def
      evhttp_send_reply_def evbuffer_free_def world_of_def split: option.splits)

lemma send_response_cb_at_most_once:
  "length (replies (world_of (send_response_cb fd ty a w))) \<le> Suc (length (replies w))"
  by (simp add: send_response_cb_def evhttp_send_reply_def http_response_free_def
      evhttp_request_free_def evbuffer_free_def free_def world_of_def split: option.splits)

lemma delayed_response_cb_sends_nothing:
  "replies (world_of (delayed_response_cb e rq w)) = replies w"
  by (simp add: delayed_response_cb_def evbuffer_new_def evbuffer_add_printf_def
      http_response_new_def event_once_def Let_def world_of_def split: option.splits)

lemma timeout_fires_at_most_once:
  "length (replies (world_of (timeout_fires i w))) \<le> Suc (length (replies w))"
proof (cases "i < length (timers w)")
  case True
  then show ?thesis
    using send_response_cb_at_most_once
      [of "- 1" EV_TIMEOUT "fst (timers w ! i)"
          "w\<lparr>timers := take i (timers w) @ drop (Suc i) (timers w)\<rparr>"]
    by (simp add: timeout_fires_def)
next
  case False
  then show ?thesis by (simp add: timeout_fires_def world_of_def)
qed

lemma blocking_response_cb_at_most_once:
  "length (replies (world_of (blocking_response_cb e rq w))) \<le> Suc (length (replies w))"
proof (cases "requests w rq")
  case None
  then show ?thesis by (simp add: blocking_response_cb_def world_of_def)
next
  case (Some r)
  show ?thesis
  proof (cases "evbuffer_new_ret e")
    case None
    with Some show ?thesis
      by (simp add: blocking_response_cb_def evbuffer_new_def evbuffer_add_printf_def world_of_def
          Let_def)
  next
    case b: (Some b)
    show ?thesis
    proof (cases "malloc_ret e")
      case None
      with Some b show ?thesis
        by (simp add: blocking_response_cb_def evbuffer_new_def evbuffer_add_printf_def
            http_response_new_def world_of_def Let_def)
    next
      case p: (Some p)
      show ?thesis
      proof (cases "usleep_ret e = 0")
        case True
        with Some b p show ?thesis
          by (simp add: blocking_response_cb_ok world_of_def)
      next
        case False
        with Some b p show ?thesis
          by (simp add: blocking_response_cb_def evbuffer_new_def evbuffer_add_printf_def
              http_response_new_def usleep_def world_of_def Let_def)
      qed
    qed
  qed
qed

lemma http_response_free_stale_request:
  "holders w a = Some h \<Longrightarrow> req h = Some rq \<Longrightarrow> requests w rq = None \<Longrightarrow>
     http_response_free (Some a) w = Inl (Dangling, w)"
  by (simp add: http_response_free_def evhttp_request_free_def)

subsection \<open>Arithmetic of the delay\<close>

lemma sint_scast_32_64: "sint (scast (x :: 32 word) :: 64 word) = sint x"
  by (rule sint_up_scast) (simp add: is_up)

lemma sint_mult_1000:
  "- 2147483 \<le> sint d \<Longrightarrow> sint d \<le> 2147483 \<Longrightarrow> sint (1000 * d :: 32 word) = 1000 * sint d"
  by (simp add: sint_word_ariths signed_take_bit_int_eq_self)

lemma timeval_usecs_delay:
  "- 2147483 \<le> sint d \<Longrightarrow> sint d \<le> 2147483 \<Longrightarrow>
     timeval_usecs \<lparr>tv_sec = 0, tv_usec = scast (1000 * d :: 32 word)\<rparr> = 1000 * sint d"
  by (simp add: timeval_usecs_def sint_scast_32_64 sint_mult_1000)

lemma sint_times_1000:
  "- 2147483 \<le> sint d \<Longrightarrow> sint d \<le> 2147483 \<Longrightarrow> sint (d * 1000 :: 32 word) = 1000 * sint d"
  using sint_mult_1000 [of d] by (simp add: mult.commute)

subsection \<open>Formatting and reading back\<close>

lemma isdigit_plain: "isdigit c \<Longrightarrow> \<not> isspace c \<and> c \<noteq> CHR ''-'' \<and> c \<noteq> CHR ''+''"
  by (auto simp: isdigit_def isspace_def)

lemma strtol10_dec_digits: "int n \<le> LONG_MAX \<Longrightarrow> strtol10 (dec_digits n) = int n"
proof -
  assume le: "int n \<le> LONG_MAX"
  obtain c cs where e: "dec_digits n = c # cs"
    using dec_digits_nonempty [of n] by (cases "dec_digits n") auto
  have "isdigit c" using dec_digits_all [of n] e by simp
  then have p: "\<not> isspace c" "c \<noteq> CHR ''-''" "c \<noteq> CHR ''+''"
    using isdigit_plain by blast+
  have v: "acc_digits 0 (c # cs) = int n"
    using acc_digits_dec_digits [of n] e by simp
  have "strtol10 (c # cs) = min LONG_MAX (acc_digits 0 (c # cs))"
    using p by (simp add: strtol10_def)
  with v le e show ?thesis by simp
qed

lemma strtol10_minus_dec_digits:
  "LONG_MIN \<le> - int n \<Longrightarrow> strtol10 (CHR ''-'' # dec_digits n) = - int n"
  by (simp add: strtol10_def isspace_def acc_digits_dec_digits)

lemma atoi_printf_d: "atoi (printf_d d) = d"
proof (cases "sint d < 0")
  case True
  have "- 2147483648 \<le> sint d" using sint_ge [of d] by simp
  then have "LONG_MIN \<le> - int (nat (- sint d))" using True by (simp add: LONG_MIN_def)
  then have "strtol10 (CHR ''-'' # dec_digits (nat (- sint d))) = - int (nat (- sint d))"
    by (rule strtol10_minus_dec_digits)
  with True show ?thesis by (simp add: atoi_def printf_d_def)
next
  case False
  have "sint d < 2147483648" using sint_lt [of d] by simp
  then have "int (nat (sint d)) \<le> LONG_MAX" using False by (simp add: LONG_MAX_def)
  then have "strtol10 (dec_digits (nat (sint d))) = int (nat (sint d))"
    by (rule strtol10_dec_digits)
  with False show ?thesis by (simp add: atoi_def printf_d_def)
qed

lemma printf_d_shape:
  "printf_d d = (if sint d < 0 then ''-'' else []) @ dec_digits (nat \<bar>sint d\<bar>)"
  by (simp add: printf_d_def)

lemma dec_digits_zero: "dec_digits 0 = ''0''"
  by (subst dec_digits.simps) (simp add: digit_char_def)

lemma dec_digits_no_leading_zero: "hd (dec_digits n) = CHR ''0'' \<Longrightarrow> dec_digits n = ''0''"
  using hd_dec_digits_zero [of n] dec_digits_zero by simp

section \<open>The claims\<close>

subsection \<open>The query parser\<close>

text \<open>
  C3. The parser is to select only a parameter whose key is exactly \<^verbatim>\<open>delay\<close>; a key
  that merely begins with \<^verbatim>\<open>delay\<close> must never determine the result. The code compares
  with \<^verbatim>\<open>strncmp(param->key, "delay", 5)\<close>, which looks at five characters only: for
  the query \<^verbatim>\<open>?delayed=7\<close>, which has no parameter named \<^verbatim>\<open>delay\<close>, the parser
  returns 7, where the claim (and the function's own documentation, ``the value of the
  'delay' query string parameter, or 0 if none'') gives 0.
\<close>

theorem requested_delay_selects_delayed:
  "requested_delay \<lparr>meth = ''GET'', query = [(''delayed'', ''7'')]\<rparr> = 7"
  by (simp add: requested_delay_def eval_nat_numeral atoi_def strtol10_def isspace_def
      isdigit_def digit_val_def LONG_MAX_def)

text \<open>
  The rest of what C3 says holds: the comparison is case-sensitive and a key is selected
  exactly when its first five characters are \<^verbatim>\<open>delay\<close>, so no key that differs from
  \<^verbatim>\<open>delay\<close> within those five characters is ever selected.
\<close>

lemma requested_delay_other_keys_ignored:
  "\<forall>p \<in> set q. \<not> begins_with_delay (fst p) \<Longrightarrow> requested_delay \<lparr>meth = m, query = q\<rparr> = 0"
  by (simp add: requested_delay_def requested_delay_loop_skip)

lemma requested_delay_case_sensitive:
  "requested_delay \<lparr>meth = ''GET'', query = [(''Delay'', ''7''), (''DELAY'', ''8'')]\<rparr> = 0"
  by (simp add: requested_delay_def eval_nat_numeral)

text \<open>
  C4. With several \<^verbatim>\<open>delay\<close> parameters the parser is to return the parsed value of
  the last one. For \<^verbatim>\<open>?delay=10&delay=20&delayed=5\<close> the last parameter named
  \<^verbatim>\<open>delay\<close> has the value 20, and the parser returns 5: the five-character comparison
  of C3 lets the later key \<^verbatim>\<open>delayed\<close> overwrite it.
\<close>

theorem requested_delay_last_delay_overwritten:
  "requested_delay
     \<lparr>meth = ''GET'', query = [(''delay'', ''10''), (''delay'', ''20''), (''delayed'', ''5'')]\<rparr> = 5"
  by (simp add: requested_delay_def eval_nat_numeral atoi_def strtol10_def isspace_def
      isdigit_def digit_val_def LONG_MAX_def)

text \<open>
  Apart from that comparison the loop does overwrite in iteration order: the value of
  the last selected parameter is the result, and the specification's example
  \<^verbatim>\<open>?delay=10&delay=20\<close> yields 20.
\<close>

lemma requested_delay_last_selected:
  "begins_with_delay k \<Longrightarrow> \<forall>p \<in> set ys. \<not> begins_with_delay (fst p) \<Longrightarrow>
     requested_delay \<lparr>meth = m, query = xs @ (k, v) # ys\<rparr> = atoi v"
  by (simp add: requested_delay_def requested_delay_loop_last)

lemma requested_delay_10_20:
  "requested_delay \<lparr>meth = ''GET'', query = [(''delay'', ''10''), (''delay'', ''20'')]\<rparr> = 20"
  by (simp add: requested_delay_def eval_nat_numeral atoi_def strtol10_def isspace_def
      isdigit_def digit_val_def LONG_MAX_def)

text \<open>
  C5, as stated: the parser never errors; it returns 0 when the \<^verbatim>\<open>delay\<close> parameter is
  absent or its value has no valid integer prefix, and otherwise the value of that
  prefix. The last part fails where the prefix does not fit an \<^verbatim>\<open>int\<close>: the value
  \<^verbatim>\<open>4294967296\<close> is its own integer prefix, and the parser returns 0.
\<close>

theorem requested_delay_prefix_too_large:
  "spec_int_prefix ''4294967296'' = Some 4294967296 \<and>
   sint (requested_delay \<lparr>meth = ''GET'', query = [(''delay'', ''4294967296'')]\<rparr>) = 0"
  by (simp add: spec_int_prefix_def requested_delay_def eval_nat_numeral atoi_def strtol10_def
      isspace_def isdigit_def digit_val_def LONG_MAX_def)

text \<open>
  C5, amended. \<open>requested_delay\<close> is a total function: it returns an \<^verbatim>\<open>int\<close> for every
  parameter list and has no failing branch. When no key begins with \<^verbatim>\<open>delay\<close> it
  returns 0. When a parameter named \<^verbatim>\<open>delay\<close> is followed by no parameter whose key
  begins with \<^verbatim>\<open>delay\<close>, it returns 0 if that value has no valid integer prefix, and the
  value of the prefix if that lies within the range of a 32-bit \<^verbatim>\<open>int\<close>. (Nothing is
  said here about keys that begin with \<^verbatim>\<open>delay\<close> and go on: see C3.)
\<close>

theorem requested_delay_total_amended:
  "((\<forall>p \<in> set q. \<not> begins_with_delay (fst p)) \<longrightarrow>
      requested_delay \<lparr>meth = m, query = q\<rparr> = 0) \<and>
   ((\<forall>p \<in> set ys. \<not> begins_with_delay (fst p)) \<longrightarrow>
      (spec_int_prefix v = None \<longrightarrow>
         requested_delay \<lparr>meth = m, query = xs @ (''delay'', v) # ys\<rparr> = 0) \<and>
      (\<forall>n. spec_int_prefix v = Some n \<and> - 2147483648 \<le> n \<and> n < 2147483648 \<longrightarrow>
         sint (requested_delay \<lparr>meth = m, query = xs @ (''delay'', v) # ys\<rparr>) = n))"
proof -
  have d: "begins_with_delay ''delay''" by (simp add: begins_with_delay_def)
  show ?thesis
    by (simp add: requested_delay_def requested_delay_loop_skip requested_delay_loop_last [OF d]
        atoi_no_prefix atoi_prefix_in_range)
qed

theorem requested_delay_total_amended_witness:
  "requested_delay \<lparr>meth = ''GET'', query = [(''foo'', ''1'')]\<rparr> = 0 \<and>
   spec_int_prefix ''soon'' = None \<and>
   requested_delay \<lparr>meth = ''GET'', query = [(''delay'', ''soon''), (''x'', ''y'')]\<rparr> = 0 \<and>
   spec_int_prefix '' +20ms'' = Some 20 \<and>
   sint (requested_delay \<lparr>meth = ''GET'', query = [(''delay'', ''10''), (''delay'', '' +20ms''), (''x'', ''y'')]\<rparr>) = 20"
proof -
  have h1: "\<forall>p \<in> set [(''foo'', ''1'')]. \<not> begins_with_delay (fst p)"
    by (simp add: begins_with_delay_def)
  have h2: "\<forall>p \<in> set [(''x'', ''y'')]. \<not> begins_with_delay (fst p)"
    by (simp add: begins_with_delay_def)
  have s1: "spec_int_prefix ''soon'' = None"
    by (simp add: spec_int_prefix_def isspace_def isdigit_def)
  have s2: "spec_int_prefix '' +20ms'' = Some 20"
    by (simp add: spec_int_prefix_def isspace_def isdigit_def digit_val_def)
  show ?thesis
    using h1 h2 s1 s2
      requested_delay_total_amended [where q = "[(''foo'', ''1'')]" and ys = "[(''x'', ''y'')]"
        and v = "''soon''" and m = "''GET''" and xs = "[]"]
      requested_delay_total_amended [where q = "[(''foo'', ''1'')]" and ys = "[(''x'', ''y'')]"
        and v = "'' +20ms''" and m = "''GET''" and xs = "[(''delay'', ''10'')]"]
    by simp
qed

subsection \<open>The delayed handlers\<close>

text \<open>
  C1. The non-blocking handler is to arm a timer of exactly \<open>d\<close> milliseconds for every
  parsed delay \<open>d \<ge> 0\<close>, large ones included. The code sets \<^verbatim>\<open>tv_sec = 0\<close> and
  \<^verbatim>\<open>tv_usec = 1000 * wait\<close>, a product of two \<^verbatim>\<open>int\<close>s. For \<^verbatim>\<open>?delay=2147484\<close> that
  product is 2147484000, beyond \<^verbatim>\<open>INT_MAX\<close>: the 32-bit product is -2147483296, and
  that negative number of microseconds is what the timer is armed with. (Up to
  \<open>d = 2147483\<close> the timeval does denote \<open>d\<close> milliseconds: lemma
  \<open>timeval_usecs_delay\<close>.)
\<close>

theorem delay_timer_overflows_at_2147484:
  "sint (requested_delay \<lparr>meth = ''GET'', query = [(''delay'', ''2147484'')]\<rparr>) = 2147484 \<and>
   map (\<lambda>t. timeval_usecs (snd t))
     (timers (world_of (delayed_response_cb all_succeed 1 (one_request [(''delay'', ''2147484'')]))))
     = [- 2147483296]"
proof -
  have d: "requested_delay \<lparr>meth = ''GET'', query = [(''delay'', ''2147484'')]\<rparr> = 2147484"
    by (simp add: requested_delay_def eval_nat_numeral atoi_def strtol10_def isspace_def
        isdigit_def digit_val_def LONG_MAX_def)
  have r: "requests (one_request [(''delay'', ''2147484'')]) 1 =
             Some \<lparr>meth = ''GET'', query = [(''delay'', ''2147484'')]\<rparr>"
    by (simp add: one_request_def)
  have "delayed_response_cb all_succeed 1 (one_request [(''delay'', ''2147484'')]) =
     Inr ((one_request [(''delay'', ''2147484'')])
       \<lparr>buffers := (buffers (one_request [(''delay'', ''2147484'')]))(10 \<mapsto> ''Waited '' @ printf_d 2147484 @ '' ms''),
        holders := (holders (one_request [(''delay'', ''2147484'')]))(20 \<mapsto> \<lparr>req = Some 1, buf = Some 10\<rparr>),
        timers := timers (one_request [(''delay'', ''2147484'')]) @
          [(Some 20, \<lparr>tv_sec = 0, tv_usec = scast (1000 * (2147484 :: 32 word))\<rparr>)]\<rparr>)"
    using delayed_response_cb_ok [OF r, of all_succeed 10 20] d by (simp add: all_succeed_def)
  then show ?thesis
    using d by (simp add: world_of_def one_request_def timeval_usecs_def)
qed

text \<open>
  C6. For every parsed delay \<open>d\<close>, both delayed handlers (the callbacks registered
  for \<^verbatim>\<open>/delay\<close> and \<^verbatim>\<open>/block\<close>) deliver status 200 with the
  body \<^verbatim>\<open>Waited \<close>, then \<open>d\<close> in decimal without leading zeros, then \<^verbatim>\<open> ms\<close>. Here: the
  request is in flight and the calls of the environment succeed; the reply of
  \<^verbatim>\<open>/delay\<close> is the one sent when its timer fires. The number is an optional minus sign
  followed by digits only, which denote \<open>\<bar>d\<bar>\<close>, begin with 0 only when they are the
  single digit 0, and which \<open>atoi\<close> reads back as \<open>d\<close>.
\<close>

theorem waited_body:
  assumes "requests w rq = Some r" and "evbuffer_new_ret e = Some b" and "malloc_ret e = Some p"
    and "event_once_ret e = 0" and "usleep_ret e = 0"
  shows "registered_cb ''/delay'' = Some delayed_response_cb \<and>
         registered_cb ''/block'' = Some blocking_response_cb \<and>
         (\<exists>w1 w2. delayed_response_cb e rq w = Inr w1 \<and>
            timeout_fires (length (timers w)) w1 = Inr w2 \<and>
            replies w2 = replies w @
              [\<lparr>reply_to = rq, reply_code = 200, reply_reason = ''OK'',
                reply_body = ''Waited '' @ printf_d (requested_delay r) @ '' ms''\<rparr>]) \<and>
         (\<exists>w2. blocking_response_cb e rq w = Inr w2 \<and>
            replies w2 = replies w @
              [\<lparr>reply_to = rq, reply_code = 200, reply_reason = ''OK'',
                reply_body = ''Waited '' @ printf_d (requested_delay r) @ '' ms''\<rparr>]) \<and>
         printf_d (requested_delay r) =
           (if sint (requested_delay r) < 0 then ''-'' else []) @
           dec_digits (nat \<bar>sint (requested_delay r)\<bar>) \<and>
         dec_digits (nat \<bar>sint (requested_delay r)\<bar>) \<noteq> [] \<and>
         (\<forall>c \<in> set (dec_digits (nat \<bar>sint (requested_delay r)\<bar>)). isdigit c) \<and>
         acc_digits 0 (dec_digits (nat \<bar>sint (requested_delay r)\<bar>)) = \<bar>sint (requested_delay r)\<bar> \<and>
         (hd (dec_digits (nat \<bar>sint (requested_delay r)\<bar>)) = CHR ''0'' \<longrightarrow>
            dec_digits (nat \<bar>sint (requested_delay r)\<bar>) = ''0'') \<and>
         atoi (printf_d (requested_delay r)) = requested_delay r"
proof -
  obtain w1 where d: "delayed_response_cb e rq w = Inr w1"
    using delayed_response_cb_ok [OF assms(1-4)] by simp
  have t: "timeout_fires (length (timers w)) w1 =
     Inr (w\<lparr>requests := (requests w)(rq := None),
            buffers := (buffers w)(b := None),
            holders := (holders w)(p := None),
            replies := replies w @
              [\<lparr>reply_to = rq, reply_code = 200, reply_reason = ''OK'',
                reply_body = ''Waited '' @ printf_d (requested_delay r) @ '' ms''\<rparr>]\<rparr>)"
    by (rule timeout_fires_ok [OF assms(1-4) d])
  have 1: "\<exists>w1 w2. delayed_response_cb e rq w = Inr w1 \<and>
            timeout_fires (length (timers w)) w1 = Inr w2 \<and>
            replies w2 = replies w @
              [\<lparr>reply_to = rq, reply_code = 200, reply_reason = ''OK'',
                reply_body = ''Waited '' @ printf_d (requested_delay r) @ '' ms''\<rparr>]"
    using d t by simp
  have 2: "\<exists>w2. blocking_response_cb e rq w = Inr w2 \<and>
            replies w2 = replies w @
              [\<lparr>reply_to = rq, reply_code = 200, reply_reason = ''OK'',
                reply_body = ''Waited '' @ printf_d (requested_delay r) @ '' ms''\<rparr>]"
    using blocking_response_cb_ok [OF assms(1-3) assms(5)] by simp
  show ?thesis
    using 1 2 printf_d_shape dec_digits_nonempty dec_digits_all acc_digits_dec_digits
      dec_digits_no_leading_zero atoi_printf_d
    by (intro conjI impI) (simp_all add: registered_cb_def)
qed

theorem waited_body_witness:
  "replies (world_of (blocking_response_cb all_succeed 1 (one_request [(''delay'', ''250'')]))) =
     [\<lparr>reply_to = 1, reply_code = 200, reply_reason = ''OK'', reply_body = ''Waited 250 ms''\<rparr>] \<and>
   (\<exists>w1 w2. delayed_response_cb all_succeed 1 (one_request [(''delay'', ''250'')]) = Inr w1 \<and>
      timeout_fires 0 w1 = Inr w2 \<and>
      replies w2 =
        [\<lparr>reply_to = 1, reply_code = 200, reply_reason = ''OK'', reply_body = ''Waited 250 ms''\<rparr>])"
proof -
  have d: "requested_delay \<lparr>meth = ''GET'', query = [(''delay'', ''250'')]\<rparr> = 250"
    by (simp add: requested_delay_def eval_nat_numeral atoi_def strtol10_def isspace_def
        isdigit_def digit_val_def LONG_MAX_def)
  have f: "printf_d 250 = ''250''"
    by (simp add: printf_d_def dec_digits.simps digit_char_def)
  have r: "requests (one_request [(''delay'', ''250'')]) 1 =
             Some \<lparr>meth = ''GET'', query = [(''delay'', ''250'')]\<rparr>"
    by (simp add: one_request_def)
  have e: "evbuffer_new_ret all_succeed = Some 10" "malloc_ret all_succeed = Some 20"
    "event_once_ret all_succeed = 0" "usleep_ret all_succeed = 0"
    by (simp_all add: all_succeed_def)
  have z: "timers (one_request [(''delay'', ''250'')]) = []" "replies (one_request [(''delay'', ''250'')]) = []"
    by (simp_all add: one_request_def)
  show ?thesis
    using waited_body [OF r e] by (auto simp: d f z world_of_def)
qed

text \<open>
  C10. For every negative parsed delay \<open>d\<close> nothing is to be clamped: the parser
  returns \<open>d\<close>, the bodies carry the minus sign, the non-blocking handler arms its timer
  from the negative product \<open>1000 * d\<close> and the blocking handler passes that negative
  product to its sleep. The product is computed in \<^verbatim>\<open>int\<close>: for \<^verbatim>\<open>?delay=-2147484\<close> the
  parser returns -2147484, but \<^verbatim>\<open>1000 * wait\<close> is -2147484000, below \<^verbatim>\<open>INT_MIN\<close>, and
  the 32-bit product is +2147483296. The timer of \<^verbatim>\<open>/delay\<close> is armed with that
  positive number of microseconds and \<^verbatim>\<open>usleep\<close> in \<^verbatim>\<open>/block\<close> is handed the same
  positive number: neither is the negative product. It is the overflow of C1.
\<close>

theorem negative_delay_product_overflows:
  "sint (requested_delay \<lparr>meth = ''GET'', query = [(''delay'', ''-2147484'')]\<rparr>) = - 2147484 \<and>
   map (\<lambda>t. timeval_usecs (snd t))
     (timers (world_of (delayed_response_cb all_succeed 1 (one_request [(''delay'', ''-2147484'')]))))
     = [2147483296] \<and>
   map sint
     (sleeps (world_of (blocking_response_cb all_succeed 1 (one_request [(''delay'', ''-2147484'')]))))
     = [2147483296]"
proof -
  have d: "requested_delay \<lparr>meth = ''GET'', query = [(''delay'', ''-2147484'')]\<rparr> = - 2147484"
    by (simp add: requested_delay_def eval_nat_numeral atoi_def strtol10_def isspace_def
        isdigit_def digit_val_def LONG_MIN_def)
  have r: "requests (one_request [(''delay'', ''-2147484'')]) 1 =
             Some \<lparr>meth = ''GET'', query = [(''delay'', ''-2147484'')]\<rparr>"
    by (simp add: one_request_def)
  have e: "evbuffer_new_ret all_succeed = Some 10" "malloc_ret all_succeed = Some 20"
    "event_once_ret all_succeed = 0" "usleep_ret all_succeed = 0"
    by (simp_all add: all_succeed_def)
  note 1 = delayed_response_cb_ok [OF r e(1) e(2) e(3)]
  note 2 = blocking_response_cb_ok [OF r e(1) e(2) e(4)]
  show ?thesis
    using 1 2 by (simp add: d world_of_def one_request_def timeval_usecs_def)
qed

text \<open>
  Where the product does not overflow, nothing is clamped. Let the parameter named
  \<^verbatim>\<open>delay\<close> that takes effect (none after it is selected) have a value \<open>v\<close> that
  \<open>atoi\<close> reads as a negative \<open>d\<close>, and let the calls of the environment succeed. Then
  \<open>requested_delay\<close> returns \<open>d\<close>; both handlers write the body \<^verbatim>\<open>Waited -\<close>\<open>\<bar>d\<bar>\<close>\<^verbatim>\<open> ms\<close>;
  the timer gets \<^verbatim>\<open>tv_sec = 0\<close> and \<^verbatim>\<open>tv_usec\<close> the product \<^verbatim>\<open>1000 * wait\<close> as C computes
  it, and \<^verbatim>\<open>usleep\<close> gets \<^verbatim>\<open>wait * 1000\<close>. Down to \<open>d = -2147483\<close> that product is
  exactly \<open>1000 * d\<close>, a negative number.
\<close>

lemma negative_delay_not_clamped:
  assumes "requests w rq = Some r" and "query r = xs @ (''delay'', v) # ys"
    and "\<forall>p \<in> set ys. \<not> begins_with_delay (fst p)" and "sint (atoi v) < 0"
    and "evbuffer_new_ret e = Some b" and "malloc_ret e = Some p"
    and "event_once_ret e = 0" and "usleep_ret e = 0"
  shows "requested_delay r = atoi v \<and>
         delayed_response_cb e rq w =
           Inr (w\<lparr>buffers := (buffers w)
                    (b \<mapsto> ''Waited -'' @ dec_digits (nat (- sint (atoi v))) @ '' ms''),
                  holders := (holders w)(p \<mapsto> \<lparr>req = Some rq, buf = Some b\<rparr>),
                  timers := timers w @
                    [(Some p, \<lparr>tv_sec = 0, tv_usec = scast (1000 * atoi v)\<rparr>)]\<rparr>) \<and>
         blocking_response_cb e rq w =
           Inr (w\<lparr>requests := (requests w)(rq := None),
                  buffers := (buffers w)(b := None),
                  holders := (holders w)(p := None),
                  replies := replies w @
                    [\<lparr>reply_to = rq, reply_code = 200, reply_reason = ''OK'',
                      reply_body = ''Waited -'' @ dec_digits (nat (- sint (atoi v))) @ '' ms''\<rparr>],
                  sleeps := sleeps w @ [atoi v * 1000]\<rparr>) \<and>
         (- 2147483 \<le> sint (atoi v) \<longrightarrow>
            timeval_usecs \<lparr>tv_sec = 0, tv_usec = scast (1000 * atoi v)\<rparr> = 1000 * sint (atoi v) \<and>
            sint (atoi v * 1000) = 1000 * sint (atoi v) \<and>
            1000 * sint (atoi v) < 0)"
proof -
  have k: "begins_with_delay ''delay''" by (simp add: begins_with_delay_def)
  have d: "requested_delay r = atoi v"
    using assms(2) requested_delay_loop_last [OF k assms(3)] by (simp add: requested_delay_def)
  have f: "printf_d (atoi v) = CHR ''-'' # dec_digits (nat (- sint (atoi v)))"
    using assms(4) by (simp add: printf_d_def)
  have 1: "delayed_response_cb e rq w =
           Inr (w\<lparr>buffers := (buffers w)
                    (b \<mapsto> ''Waited -'' @ dec_digits (nat (- sint (atoi v))) @ '' ms''),
                  holders := (holders w)(p \<mapsto> \<lparr>req = Some rq, buf = Some b\<rparr>),
                  timers := timers w @
                    [(Some p, \<lparr>tv_sec = 0, tv_usec = scast (1000 * atoi v)\<rparr>)]\<rparr>)"
    using delayed_response_cb_ok [OF assms(1,5,6,7)] by (simp add: d f)
  have 2: "blocking_response_cb e rq w =
           Inr (w\<lparr>requests := (requests w)(rq := None),
                  buffers := (buffers w)(b := None),
                  holders := (holders w)(p := None),
                  replies := replies w @
                    [\<lparr>reply_to = rq, reply_code = 200, reply_reason = ''OK'',
                      reply_body = ''Waited -'' @ dec_digits (nat (- sint (atoi v))) @ '' ms''\<rparr>],
                  sleeps := sleeps w @ [atoi v * 1000]\<rparr>)"
    using blocking_response_cb_ok [OF assms(1,5,6,8)] by (simp add: d f)
  have 3: "- 2147483 \<le> sint (atoi v) \<longrightarrow>
            timeval_usecs \<lparr>tv_sec = 0, tv_usec = scast (1000 * atoi v)\<rparr> = 1000 * sint (atoi v) \<and>
            sint (atoi v * 1000) = 1000 * sint (atoi v) \<and>
            1000 * sint (atoi v) < 0"
    using assms(4) by (simp add: timeval_usecs_delay sint_times_1000)
  show ?thesis using d 1 2 3 by blast
qed

lemma negative_delay_not_clamped_at_minus_5:
  "requested_delay \<lparr>meth = ''GET'', query = [(''delay'', ''-5'')]\<rparr> = - 5 \<and>
   delayed_response_cb all_succeed 1 (one_request [(''delay'', ''-5'')]) =
     Inr ((one_request [(''delay'', ''-5'')])
       \<lparr>buffers := [10 \<mapsto> ''Waited -5 ms''],
        holders := [20 \<mapsto> \<lparr>req = Some 1, buf = Some 10\<rparr>],
        timers := [(Some 20, \<lparr>tv_sec = 0, tv_usec = - 5000\<rparr>)]\<rparr>) \<and>
   blocking_response_cb all_succeed 1 (one_request [(''delay'', ''-5'')]) =
     Inr ((one_request [(''delay'', ''-5'')])
       \<lparr>requests := Map.empty,
        replies := [\<lparr>reply_to = 1, reply_code = 200, reply_reason = ''OK'',
                     reply_body = ''Waited -5 ms''\<rparr>],
        sleeps := [- 5000]\<rparr>) \<and>
   timeval_usecs \<lparr>tv_sec = 0, tv_usec = - 5000\<rparr> = - 5000"
proof -
  have a: "atoi ''-5'' = - 5"
    by (simp add: atoi_def strtol10_def isspace_def isdigit_def digit_val_def LONG_MIN_def)
  have g: "dec_digits 5 = ''5''"
    by (simp add: dec_digits.simps digit_char_def)
  have h: "\<forall>p \<in> set ([] :: (string \<times> string) list). \<not> begins_with_delay (fst p)"
    by simp
  have s: "sint (atoi ''-5'') < 0" by (simp add: a)
  have r: "requests (one_request [(''delay'', ''-5'')]) 1 =
             Some \<lparr>meth = ''GET'', query = [(''delay'', ''-5'')]\<rparr>"
    by (simp add: one_request_def)
  have q: "query \<lparr>meth = ''GET'', query = [(''delay'', ''-5'')]\<rparr> = [] @ (''delay'', ''-5'') # []"
    by simp
  have e: "evbuffer_new_ret all_succeed = Some 10" "malloc_ret all_succeed = Some 20"
    "event_once_ret all_succeed = 0" "usleep_ret all_succeed = 0"
    by (simp_all add: all_succeed_def)
  show ?thesis
    using negative_delay_not_clamped [OF r q h s e]
    by (simp add: a g one_request_def)
qed

subsection \<open>One reply, one release\<close>

text \<open>
  C2. Every request handled by one of the three callbacks is answered exactly once,
  and the pending response is destroyed right after the send, request and buffer
  released together. Here, for a request in flight and an environment whose calls
  succeed:
  \<^item> \<open>send_response_cb\<close>, on any holder that owns a live request and a live buffer,
    returns with one reply appended and with request, buffer and holder all gone. In
    the model \<open>evhttp_request_free\<close> on a request already sent is the fault
    \<open>Dangling\<close> (lemma \<open>http_response_free_stale_request\<close>): returning normally, the
    release path did not call it.
  \<^item> \<open>null_response_cb\<close> returns with one reply appended, the request consumed and its
    buffer freed.
  \<^item> \<open>delayed_response_cb\<close> returns with no reply yet, the holder allocated and one
    timer more; when that timer fires, one reply is appended and request, holder and
    buffer are gone.
  \<^item> \<open>blocking_response_cb\<close> returns with one reply appended and request, holder and
    buffer gone.
  \<^item> On every path of every callback, failing ones included, at most one reply is
    appended.
\<close>

theorem response_sent_exactly_once:
  assumes "requests w rq = Some r" and "evbuffer_new_ret e = Some b" and "malloc_ret e = Some p"
    and "event_once_ret e = 0" and "usleep_ret e = 0"
    and "holders w0 a = Some h" and "req h = Some rq0" and "buf h = Some b0"
    and "requests w0 rq0 = Some r0" and "buffers w0 b0 = Some t0"
  shows "send_response_cb fd ty (Some a) w0 =
           Inr (w0\<lparr>requests := (requests w0)(rq0 := None),
                   buffers := (buffers w0)(b0 := None),
                   holders := (holders w0)(a := None),
                   replies := replies w0 @
                     [\<lparr>reply_to = rq0, reply_code = 200, reply_reason = ''OK'',
                       reply_body = t0\<rparr>]\<rparr>) \<and>
         (\<exists>w'. null_response_cb e rq w = Inr w' \<and>
            replies w' = replies w @
              [\<lparr>reply_to = rq, reply_code = 200, reply_reason = ''OK'', reply_body = ''OK''\<rparr>] \<and>
            requests w' rq = None \<and> buffers w' b = None) \<and>
         (\<exists>w1 w' tv t. delayed_response_cb e rq w = Inr w1 \<and>
            replies w1 = replies w \<and> requests w1 rq = Some r \<and>
            holders w1 p = Some \<lparr>req = Some rq, buf = Some b\<rparr> \<and>
            timers w1 = timers w @ [(Some p, tv)] \<and>
            timeout_fires (length (timers w)) w1 = Inr w' \<and>
            replies w' = replies w @
              [\<lparr>reply_to = rq, reply_code = 200, reply_reason = ''OK'', reply_body = t\<rparr>] \<and>
            requests w' rq = None \<and> holders w' p = None \<and> buffers w' b = None \<and>
            timers w' = timers w) \<and>
         (\<exists>w' t. blocking_response_cb e rq w = Inr w' \<and>
            replies w' = replies w @
              [\<lparr>reply_to = rq, reply_code = 200, reply_reason = ''OK'', reply_body = t\<rparr>] \<and>
            requests w' rq = None \<and> holders w' p = None \<and> buffers w' b = None) \<and>
         (\<forall>e' rq' w'. length (replies (world_of (null_response_cb e' rq' w'))) \<le> Suc (length (replies w'))) \<and>
         (\<forall>e' rq' w'. replies (world_of (delayed_response_cb e' rq' w')) = replies w') \<and>
         (\<forall>i w'. length (replies (world_of (timeout_fires i w'))) \<le> Suc (length (replies w'))) \<and>
         (\<forall>e' rq' w'. length (replies (world_of (blocking_response_cb e' rq' w'))) \<le> Suc (length (replies w')))"
proof -
  have s: "send_response_cb fd ty (Some a) w0 =
           Inr (w0\<lparr>requests := (requests w0)(rq0 := None),
                   buffers := (buffers w0)(b0 := None),
                   holders := (holders w0)(a := None),
                   replies := replies w0 @
                     [\<lparr>reply_to = rq0, reply_code = 200, reply_reason = ''OK'',
                       reply_body = t0\<rparr>]\<rparr>)"
    by (rule send_response_cb_ok [OF assms(6-10)])
  have n: "\<exists>w'. null_response_cb e rq w = Inr w' \<and>
            replies w' = replies w @
              [\<lparr>reply_to = rq, reply_code = 200, reply_reason = ''OK'', reply_body = ''OK''\<rparr>] \<and>
            requests w' rq = None \<and> buffers w' b = None"
    using null_response_cb_ok [OF assms(1,2)] by simp
  have d0: "delayed_response_cb e rq w =
     Inr (w\<lparr>buffers := (buffers w)(b \<mapsto> ''Waited '' @ printf_d (requested_delay r) @ '' ms''),
            holders := (holders w)(p \<mapsto> \<lparr>req = Some rq, buf = Some b\<rparr>),
            timers := timers w @
              [(Some p, \<lparr>tv_sec = 0, tv_usec = scast (1000 * requested_delay r)\<rparr>)]\<rparr>)"
    by (rule delayed_response_cb_ok [OF assms(1-4)])
  have d: "\<exists>w1 w' tv t. delayed_response_cb e rq w = Inr w1 \<and>
            replies w1 = replies w \<and> requests w1 rq = Some r \<and>
            holders w1 p = Some \<lparr>req = Some rq, buf = Some b\<rparr> \<and>
            timers w1 = timers w @ [(Some p, tv)] \<and>
            timeout_fires (length (timers w)) w1 = Inr w' \<and>
            replies w' = replies w @
              [\<lparr>reply_to = rq, reply_code = 200, reply_reason = ''OK'', reply_body = t\<rparr>] \<and>
            requests w' rq = None \<and> holders w' p = None \<and> buffers w' b = None \<and>
            timers w' = timers w"
    using d0 timeout_fires_ok [OF assms(1-4) d0] assms(1) by simp
  have bl: "\<exists>w' t. blocking_response_cb e rq w = Inr w' \<and>
            replies w' = replies w @
              [\<lparr>reply_to = rq, reply_code = 200, reply_reason = ''OK'', reply_body = t\<rparr>] \<and>
            requests w' rq = None \<and> holders w' p = None \<and> buffers w' b = None"
    using blocking_response_cb_ok [OF assms(1-3) assms(5)] by simp
  show ?thesis
    using s n d bl null_response_cb_at_most_once delayed_response_cb_sends_nothing
      timeout_fires_at_most_once blocking_response_cb_at_most_once
    by (intro conjI allI) blast+
qed

theorem response_sent_exactly_once_witness:
  "replies (world_of (send_response_cb (- 1) EV_TIMEOUT (Some 20)
     ((one_request [])\<lparr>buffers := [10 \<mapsto> ''hi''],
                       holders := [20 \<mapsto> \<lparr>req = Some 1, buf = Some 10\<rparr>]\<rparr>))) =
     [\<lparr>reply_to = 1, reply_code = 200, reply_reason = ''OK'', reply_body = ''hi''\<rparr>] \<and>
   (\<exists>w'. null_response_cb all_succeed 1 (one_request []) = Inr w' \<and>
      replies w' =
        [\<lparr>reply_to = 1, reply_code = 200, reply_reason = ''OK'', reply_body = ''OK''\<rparr>] \<and>
      requests w' 1 = None \<and> buffers w' 10 = None) \<and>
   (\<exists>w1 w' tv t. delayed_response_cb all_succeed 1 (one_request []) = Inr w1 \<and>
      replies w1 = [] \<and>
      requests w1 1 = Some \<lparr>meth = ''GET'', query = []\<rparr> \<and>
      holders w1 20 = Some \<lparr>req = Some 1, buf = Some 10\<rparr> \<and>
      timers w1 = [(Some 20, tv)] \<and>
      timeout_fires 0 w1 = Inr w' \<and>
      replies w' = [\<lparr>reply_to = 1, reply_code = 200, reply_reason = ''OK'', reply_body = t\<rparr>] \<and>
      requests w' 1 = None \<and> holders w' 20 = None \<and> buffers w' 10 = None \<and> timers w' = []) \<and>
   (\<exists>w' t. blocking_response_cb all_succeed 1 (one_request []) = Inr w' \<and>
      replies w' = [\<lparr>reply_to = 1, reply_code = 200, reply_reason = ''OK'', reply_body = t\<rparr>] \<and>
      requests w' 1 = None \<and> holders w' 20 = None \<and> buffers w' 10 = None)"
proof -
  have r: "requests (one_request []) 1 = Some \<lparr>meth = ''GET'', query = []\<rparr>"
    by (simp add: one_request_def)
  have e: "evbuffer_new_ret all_succeed = Some 10" "malloc_ret all_succeed = Some 20"
    "event_once_ret all_succeed = 0" "usleep_ret all_succeed = 0"
    by (simp_all add: all_succeed_def)
  have h: "holders ((one_request [])\<lparr>buffers := [10 \<mapsto> ''hi''],
                       holders := [20 \<mapsto> \<lparr>req = Some 1, buf = Some 10\<rparr>]\<rparr>) 20 =
             Some \<lparr>req = Some 1, buf = Some 10\<rparr>"
    "req \<lparr>req = Some 1, buf = Some 10\<rparr> = Some 1" "buf \<lparr>req = Some 1, buf = Some 10\<rparr> = Some 10"
    "requests ((one_request [])\<lparr>buffers := [10 \<mapsto> ''hi''],
                       holders := [20 \<mapsto> \<lparr>req = Some 1, buf = Some 10\<rparr>]\<rparr>) 1 =
             Some \<lparr>meth = ''GET'', query = []\<rparr>"
    "buffers ((one_request [])\<lparr>buffers := [10 \<mapsto> ''hi''],
                       holders := [20 \<mapsto> \<lparr>req = Some 1, buf = Some 10\<rparr>]\<rparr>) 10 = Some ''hi''"
    by (simp_all add: one_request_def)
  have z: "replies (one_request []) = []" "timers (one_request []) = []"
    by (simp_all add: one_request_def)
  show ?thesis
    using response_sent_exactly_once [OF r e h, of "- 1" EV_TIMEOUT]
    by (simp add: world_of_def z)
qed

text \<open>
  C7. On path \<^verbatim>\<open>/\<close> the registered callback is \<open>null_response_cb\<close>. For a request in
  flight, whatever its method and query, with \<^verbatim>\<open>evbuffer_new\<close> returning an unused
  buffer, it returns having sent status 200, reason \<^verbatim>\<open>OK\<close>, body \<^verbatim>\<open>OK\<close>; the world
  differs from the one before only in that reply and in the request being consumed: no
  timer, holder, buffer or sleep is added. A second request handled after the first gets
  the same reply and again leaves nothing behind.
\<close>

theorem immediate_handler:
  assumes "requests w rq = Some r" and "evbuffer_new_ret e = Some b" and "buffers w b = None"
    and "rq' \<noteq> rq" and "requests w rq' = Some r'" and "evbuffer_new_ret e' = Some b'"
    and "buffers w b' = None"
  shows "registered_cb ''/'' = Some null_response_cb \<and>
         null_response_cb e rq w =
           Inr (w\<lparr>requests := (requests w)(rq := None),
                  replies := replies w @
                    [\<lparr>reply_to = rq, reply_code = 200, reply_reason = ''OK'',
                      reply_body = ''OK''\<rparr>]\<rparr>) \<and>
         null_response_cb e' rq'
             (w\<lparr>requests := (requests w)(rq := None),
                replies := replies w @
                  [\<lparr>reply_to = rq, reply_code = 200, reply_reason = ''OK'',
                    reply_body = ''OK''\<rparr>]\<rparr>) =
           Inr (w\<lparr>requests := (requests w)(rq := None, rq' := None),
                  replies := replies w @
                    [\<lparr>reply_to = rq, reply_code = 200, reply_reason = ''OK'',
                      reply_body = ''OK''\<rparr>,
                     \<lparr>reply_to = rq', reply_code = 200, reply_reason = ''OK'',
                      reply_body = ''OK''\<rparr>]\<rparr>)"
proof -
  have b: "(buffers w)(b := None) = buffers w" "(buffers w)(b' := None) = buffers w"
    using assms(3,7) by (simp_all add: fun_upd_idem)
  have 1: "null_response_cb e rq w =
           Inr (w\<lparr>requests := (requests w)(rq := None),
                  replies := replies w @
                    [\<lparr>reply_to = rq, reply_code = 200, reply_reason = ''OK'',
                      reply_body = ''OK''\<rparr>]\<rparr>)"
    using null_response_cb_ok [OF assms(1,2)] b by simp
  have l: "requests (w\<lparr>requests := (requests w)(rq := None),
                replies := replies w @
                  [\<lparr>reply_to = rq, reply_code = 200, reply_reason = ''OK'',
                    reply_body = ''OK''\<rparr>]\<rparr>) rq' = Some r'"
    using assms(4,5) by simp
  have 2: "null_response_cb e' rq'
             (w\<lparr>requests := (requests w)(rq := None),
                replies := replies w @
                  [\<lparr>reply_to = rq, reply_code = 200, reply_reason = ''OK'',
                    reply_body = ''OK''\<rparr>]\<rparr>) =
           Inr (w\<lparr>requests := (requests w)(rq := None, rq' := None),
                  replies := replies w @
                    [\<lparr>reply_to = rq, reply_code = 200, reply_reason = ''OK'',
                      reply_body = ''OK''\<rparr>,
                     \<lparr>reply_to = rq', reply_code = 200, reply_reason = ''OK'',
                      reply_body = ''OK''\<rparr>]\<rparr>)"
    using null_response_cb_ok [OF l assms(6)] b by simp
  show ?thesis using 1 2 by (simp add: registered_cb_def)
qed

theorem immediate_handler_witness:
  "null_response_cb all_succeed 1
     ((one_request [(''delay'', ''99'')])
        \<lparr>requests := (requests (one_request [(''delay'', ''99'')]))
           (2 \<mapsto> \<lparr>meth = ''POST'', query = []\<rparr>)\<rparr>) =
     Inr \<lparr>requests = [2 \<mapsto> \<lparr>meth = ''POST'', query = []\<rparr>], buffers = Map.empty,
          holders = Map.empty, timers = [],
          replies = [\<lparr>reply_to = 1, reply_code = 200, reply_reason = ''OK'', reply_body = ''OK''\<rparr>],
          sleeps = []\<rparr> \<and>
   null_response_cb all_succeed 2
     \<lparr>requests = [2 \<mapsto> \<lparr>meth = ''POST'', query = []\<rparr>], buffers = Map.empty,
      holders = Map.empty, timers = [],
      replies = [\<lparr>reply_to = 1, reply_code = 200, reply_reason = ''OK'', reply_body = ''OK''\<rparr>],
      sleeps = []\<rparr> =
     Inr \<lparr>requests = Map.empty, buffers = Map.empty, holders = Map.empty, timers = [],
          replies = [\<lparr>reply_to = 1, reply_code = 200, reply_reason = ''OK'', reply_body = ''OK''\<rparr>,
                     \<lparr>reply_to = 2, reply_code = 200, reply_reason = ''OK'', reply_body = ''OK''\<rparr>],
          sleeps = []\<rparr>"
  using immediate_handler
    [where w = "(one_request [(''delay'', ''99'')])
        \<lparr>requests := (requests (one_request [(''delay'', ''99'')]))
           (2 \<mapsto> \<lparr>meth = ''POST'', query = []\<rparr>)\<rparr>"
      and rq = 1 and r = "\<lparr>meth = ''GET'', query = [(''delay'', ''99'')]\<rparr>"
      and e = all_succeed and b = 10 and rq' = 2 and r' = "\<lparr>meth = ''POST'', query = []\<rparr>"
      and e' = all_succeed and b' = 10]
  by (simp add: one_request_def all_succeed_def fun_upd_twist)

subsection \<open>Fatal conditions\<close>

text \<open>
  C8. In \<open>blocking_response_cb\<close> a sleep that does not last the requested time is to
  abort the process: no response is sent then, and a response for a wait shorter than
  the one requested is never sent. The assertion tests the result of \<^verbatim>\<open>usleep\<close> only, and
  what \<^verbatim>\<open>usleep\<close> is asked for is the \<^verbatim>\<open>int\<close> product \<^verbatim>\<open>wait*1000\<close>. For
  \<^verbatim>\<open>?delay=4294968\<close> that product is 4294968000, which is 704 in 32 bits:
  \<^verbatim>\<open>usleep(704)\<close> returns 0, the assertion passes, and the body \<^verbatim>\<open>Waited 4294968 ms\<close>
  is sent with status 200 after a sleep of 704 microseconds. It is the overflow of C1.
\<close>

theorem blocking_sleep_shorter_than_requested:
  "sint (requested_delay \<lparr>meth = ''GET'', query = [(''delay'', ''4294968'')]\<rparr>) = 4294968 \<and>
   usleep_ret all_succeed = 0 \<and>
   blocking_response_cb all_succeed 1 (one_request [(''delay'', ''4294968'')]) =
     Inr ((one_request [(''delay'', ''4294968'')])
       \<lparr>requests := Map.empty,
        replies := [\<lparr>reply_to = 1, reply_code = 200, reply_reason = ''OK'',
                     reply_body = ''Waited 4294968 ms''\<rparr>],
        sleeps := [704]\<rparr>)"
proof -
  have d: "requested_delay \<lparr>meth = ''GET'', query = [(''delay'', ''4294968'')]\<rparr> = 4294968"
    by (simp add: requested_delay_def eval_nat_numeral atoi_def strtol10_def isspace_def
        isdigit_def digit_val_def LONG_MAX_def)
  have f: "printf_d 4294968 = ''4294968''"
    by (simp add: printf_d_def dec_digits.simps digit_char_def)
  have r: "requests (one_request [(''delay'', ''4294968'')]) 1 =
             Some \<lparr>meth = ''GET'', query = [(''delay'', ''4294968'')]\<rparr>"
    by (simp add: one_request_def)
  have e: "evbuffer_new_ret all_succeed = Some 10" "malloc_ret all_succeed = Some 20"
    "usleep_ret all_succeed = 0"
    by (simp_all add: all_succeed_def)
  note 1 = blocking_response_cb_ok [OF r e]
  show ?thesis
    using 1 by (simp add: d f e(3) one_request_def)
qed

text \<open>
  What the assertion does guard is the result of \<^verbatim>\<open>usleep\<close>. If it is nonzero the
  process aborts and no reply is sent, whatever else the environment answers; with
  request, buffer and holder in place the abort is the failed assertion, after the sleep
  was asked for. If it is 0 the callback sends the reply with status 200 and releases
  the holder. As long as \<^verbatim>\<open>wait*1000\<close> does not overflow (\<open>\<bar>d\<bar> \<le> 2147483\<close>), the sleep
  asked for is the one requested.
\<close>

lemma blocking_sleep_must_complete:
  "(usleep_ret e \<noteq> 0 \<longrightarrow>
      (\<exists>f w'. blocking_response_cb e rq w = Inl (f, w') \<and> replies w' = replies w)) \<and>
   (requests w rq = Some r \<and> evbuffer_new_ret e = Some b \<and> malloc_ret e = Some p \<longrightarrow>
      (usleep_ret e \<noteq> 0 \<longrightarrow>
         (\<exists>w'. blocking_response_cb e rq w = Inl (AssertionFailed, w') \<and>
            replies w' = replies w \<and>
            sleeps w' = sleeps w @ [requested_delay r * 1000])) \<and>
      (usleep_ret e = 0 \<longrightarrow>
         (\<exists>w'. blocking_response_cb e rq w = Inr w' \<and>
            replies w' = replies w @
              [\<lparr>reply_to = rq, reply_code = 200, reply_reason = ''OK'',
                reply_body = ''Waited '' @ printf_d (requested_delay r) @ '' ms''\<rparr>] \<and>
            sleeps w' = sleeps w @ [requested_delay r * 1000] \<and>
            requests w' rq = None \<and> holders w' p = None \<and> buffers w' b = None)))"
  using blocking_response_cb_interrupted_any [of e rq w]
    blocking_response_cb_interrupted [of w rq r e b p]
    blocking_response_cb_ok [of w rq r e b p]
  by (intro conjI impI; (elim conjE)?; simp)

lemma blocking_sleep_must_complete_at_250:
  "(\<exists>w'. blocking_response_cb (all_succeed\<lparr>usleep_ret := - 1\<rparr>) 1 (one_request [(''delay'', ''250'')]) =
        Inl (AssertionFailed, w') \<and> replies w' = [] \<and> sleeps w' = [250000]) \<and>
   (\<exists>w'. blocking_response_cb all_succeed 1 (one_request [(''delay'', ''250'')]) = Inr w' \<and>
      replies w' =
        [\<lparr>reply_to = 1, reply_code = 200, reply_reason = ''OK'', reply_body = ''Waited 250 ms''\<rparr>] \<and>
      sleeps w' = [250000] \<and> requests w' 1 = None \<and> holders w' 20 = None \<and> buffers w' 10 = None)"
proof -
  have d: "requested_delay \<lparr>meth = ''GET'', query = [(''delay'', ''250'')]\<rparr> = 250"
    by (simp add: requested_delay_def eval_nat_numeral atoi_def strtol10_def isspace_def
        isdigit_def digit_val_def LONG_MAX_def)
  have f: "printf_d 250 = ''250''"
    by (simp add: printf_d_def dec_digits.simps digit_char_def)
  show ?thesis
    using blocking_sleep_must_complete
        [where e = "all_succeed\<lparr>usleep_ret := - 1\<rparr>" and rq = 1
          and w = "one_request [(''delay'', ''250'')]"
          and r = "\<lparr>meth = ''GET'', query = [(''delay'', ''250'')]\<rparr>" and b = 10 and p = 20]
      blocking_sleep_must_complete
        [where e = all_succeed and rq = 1 and w = "one_request [(''delay'', ''250'')]"
          and r = "\<lparr>meth = ''GET'', query = [(''delay'', ''250'')]\<rparr>" and b = 10 and p = 20]
    by (simp add: one_request_def d f all_succeed_def)
qed

text \<open>
  C9, as stated: a failed allocation of the body buffer or of the holder aborts the
  process in an assertion, and nothing runs past it. The holder's \<^verbatim>\<open>malloc\<close> is under
  \<^verbatim>\<open>assert(resp)\<close>, but no callback tests what \<^verbatim>\<open>evbuffer_new\<close> returns: with a null
  buffer \<open>delayed_response_cb\<close> goes on to \<^verbatim>\<open>evbuffer_add_printf\<close>, and the process ends
  there on the null pointer, not in an assertion.
\<close>

theorem buffer_allocation_failure_unchecked:
  "evbuffer_new_ret (all_succeed\<lparr>evbuffer_new_ret := None\<rparr>) = None \<and>
   delayed_response_cb (all_succeed\<lparr>evbuffer_new_ret := None\<rparr>) 1 (one_request []) =
     Inl (NullPointer, one_request [])"
  by (simp add: delayed_response_cb_def evbuffer_new_def evbuffer_add_printf_def Let_def
      one_request_def all_succeed_def)

text \<open>
  C9, amended. If the allocation of the holder fails, \<open>http_response_new\<close> aborts the
  process in its assertion: in both delayed callbacks no reply is sent, no timer is armed
  and no sleep is begun. A failed allocation of the body buffer is not asserted: each of
  the three callbacks passes the null buffer to \<^verbatim>\<open>evbuffer_add_printf\<close>, where the run
  ends on the null pointer with the world unchanged, so no reply is sent then either.
\<close>

theorem allocation_failure_amended:
  assumes "requests w rq = Some r"
  shows "(malloc_ret e = None \<longrightarrow> http_response_new x y e w = Inl (AssertionFailed, w)) \<and>
         (evbuffer_new_ret e = Some b \<and> malloc_ret e = None \<longrightarrow>
            (\<exists>w'. delayed_response_cb e rq w = Inl (AssertionFailed, w') \<and>
               replies w' = replies w \<and> timers w' = timers w) \<and>
            (\<exists>w'. blocking_response_cb e rq w = Inl (AssertionFailed, w') \<and>
               replies w' = replies w \<and> sleeps w' = sleeps w)) \<and>
         (evbuffer_new_ret e = None \<longrightarrow>
            null_response_cb e rq w = Inl (NullPointer, w) \<and>
            delayed_response_cb e rq w = Inl (NullPointer, w) \<and>
            blocking_response_cb e rq w = Inl (NullPointer, w))"
  using assms
  by (simp add: null_response_cb_def delayed_response_cb_def blocking_response_cb_def
      evbuffer_new_def evbuffer_add_printf_def http_response_new_def Let_def)

theorem allocation_failure_amended_witness:
  "(\<exists>w'. delayed_response_cb (all_succeed\<lparr>malloc_ret := None\<rparr>) 1 (one_request []) =
       Inl (AssertionFailed, w') \<and> replies w' = [] \<and> timers w' = []) \<and>
   (\<exists>w'. blocking_response_cb (all_succeed\<lparr>malloc_ret := None\<rparr>) 1 (one_request []) =
       Inl (AssertionFailed, w') \<and> replies w' = [] \<and> sleeps w' = []) \<and>
   null_response_cb (all_succeed\<lparr>evbuffer_new_ret := None\<rparr>) 1 (one_request []) =
     Inl (NullPointer, one_request []) \<and>
   blocking_response_cb (all_succeed\<lparr>evbuffer_new_ret := None\<rparr>) 1 (one_request []) =
     Inl (NullPointer, one_request [])"
proof -
  have z: "requests (one_request []) 1 = Some \<lparr>meth = ''GET'', query = []\<rparr>"
    by (simp add: one_request_def)
  show ?thesis
    using allocation_failure_amended [OF z, where e = "all_succeed\<lparr>malloc_ret := None\<rparr>" and b = 10]
      allocation_failure_amended [OF z, where e = "all_succeed\<lparr>evbuffer_new_ret := None\<rparr>"]
    by (simp add: one_request_def all_succeed_def)
qed

end
